theory Spec2Isabelle
  imports Main
begin

section \<open>Promise factories: src/core/lib/promise/detail/promise\_factory.h\<close>

text \<open>
  The header is template code. Two things happen in it and both are modelled:
  \<^item> at compile time, the overload set \<open>PromiseFactoryImpl\<close> is resolved from the
    type of the callable \<open>F\<close> and of the argument \<open>A\<close> (the \<open>enable_if_t\<close> guards built
    from \<open>ResultOf\<close> and \<open>IsVoidCallable\<close>);
  \<^item> at run time, the body of the selected overload builds the promise.
  The first is a computation on type descriptors (\<open>cty\<close>), the second a family of HOL
  functions, one per overload body, with side effects threaded through a world \<open>'w\<close>.

  Scope of the model. The type descriptors describe the call that \<open>Once\<close> and the alias
  \<open>Promise\<close> make, with \<open>F\<close> deduced from \<open>std::move(f_)\<close> as the class type itself, so
  \<open>RemoveCVRef\<close> is the identity on them. \<open>Repeated\<close> passes the const member \<open>f_\<close>; which
  call operator that reaches is part of the run-time model of \<open>Repeated\<close>. A call
  operator is not overloaded on rvalue and lvalue, the const and the non-const call
  operator of a class have one result type, and a call operator acts on nothing but the
  world.
\<close>

subsection \<open>Types and call signatures\<close>

text \<open>
  \<open>TClass n\<close> is a user-supplied class type with a call operator (a lambda, a functor);
  its signature comes from the environment \<open>sigs\<close>: \<open>S n args\<close> is the type of
  \<open>declval<F>()(declval<args>()...)\<close>, or \<open>None\<close> when that expression is ill-formed.
  \<open>TPoll T\<close> is \<open>Poll<T>\<close> of poll.h (the spec's Status), \<open>TCurried F Arg\<close> is
  \<open>Curried<F, Arg>\<close>, \<open>TPromiseLike F\<close> is \<open>PromiseLike<F>\<close> of promise\_like.h.
\<close>

datatype cty = TInt | TPoll cty | TClass nat | TCurried cty cty | TPromiseLike cty

type_synonym sigs = "nat \<Rightarrow> cty list \<Rightarrow> cty option"

text \<open>
  Modelled from the spec: promise\_like.h is not among the sources. A promise yields a
  Status: a raw result \<open>T\<close> is wrapped into \<open>Poll<T>\<close>, a result that is a Status already
  is left as it is.
\<close>

fun WrapInPoll_ty :: "cty \<Rightarrow> cty" where
  "WrapInPoll_ty (TPoll T) = TPoll T"
| "WrapInPoll_ty T = TPoll T"

text \<open>
  The type of a call expression. \<open>Curried<F, Arg>::operator()()\<close> has the result type
  \<open>Result = decltype(declval<F>()(declval<Arg>()))\<close> (line 102).
\<close>

fun invoke_result :: "sigs \<Rightarrow> cty \<Rightarrow> cty list \<Rightarrow> cty option" where
  "invoke_result S (TClass n) args = S n args"
| "invoke_result S (TCurried F Arg) args =
     (if args = [] then invoke_result S F [Arg] else None)"
| "invoke_result S (TPromiseLike F) args =
     (if args = [] then map_option WrapInPoll_ty (invoke_result S F []) else None)"
| "invoke_result S TInt args = None"
| "invoke_result S (TPoll T) args = None"

text \<open>Lines 55-69: given a \<open>T\<close>, and \<open>T x\<close>, is calling \<open>x()\<close> legal?\<close>

definition IsVoidCallable :: "sigs \<Rightarrow> cty \<Rightarrow> bool" where
  "IsVoidCallable S T = (invoke_result S T [] \<noteq> None)"

text \<open>Lines 71-73.\<close>

definition RemoveCVRef :: "cty \<Rightarrow> cty" where
  "RemoveCVRef T = T"

text \<open>
  Lines 75-93. \<open>ResultOfTInner\<close> has a partial specialisation guarded by \<open>void_t\<close> and a
  primary template that is declared and never defined: \<open>None\<close> stands for the primary
  template. \<open>ResultOfT<F(Args...)>\<close> names \<open>ResultOfTInner<FP(Args...)>::T\<close> inside its
  own class body; when only the undefined primary template is there, the error arises
  while \<open>ResultOfT\<close> is instantiated, outside the immediate context of the function
  template being substituted, so it is an error of the program and not a substitution
  failure.
\<close>

datatype 'a subst = Substituted 'a | SubstitutionFailure | HardError

definition ResultOfTInner :: "sigs \<Rightarrow> cty \<Rightarrow> cty list \<Rightarrow> cty option" where
  "ResultOfTInner S F Args = invoke_result S F Args"

definition ResultOf :: "sigs \<Rightarrow> cty \<Rightarrow> cty list \<Rightarrow> cty subst" where
  "ResultOf S F Args =
     (case ResultOfTInner S (RemoveCVRef F) Args of
        None \<Rightarrow> HardError
      | Some T \<Rightarrow> Substituted T)"

definition enable_if_t :: "bool \<Rightarrow> 'a \<Rightarrow> 'a subst" where
  "enable_if_t c T = (if c then Substituted T else SubstitutionFailure)"

subsection \<open>The overload set PromiseFactoryImpl\<close>

text \<open>
  The six function templates, in the order of the source:
  \<open>Capture\<close> lines 112-116, \<open>DropArgWrap\<close> lines 120-124, \<open>Wrap\<close> lines 127-131,
  \<open>Call1\<close> lines 134-139, \<open>DropArgCall0\<close> lines 143-148, \<open>Call0\<close> lines 151-156.
\<close>

datatype overload = Capture | DropArgWrap | Wrap | Call1 | DropArgCall0 | Call0

definition overloads :: "overload list" where
  "overloads = [Capture, DropArgWrap, Wrap, Call1, DropArgCall0, Call0]"

text \<open>
  The declared return type of an overload after substituting \<open>F\<close> and the argument type
  (\<open>None\<close> for a call with the callable alone, \<open>Some A\<close> for a call with an argument).
  A template with two function parameters cannot be deduced from one argument and the
  other way round: that is a deduction failure before the return type is looked at.
  Line 113 writes \<open>Curried<A, F>\<close> although \<open>Curried\<close> is declared over
  \<open><typename F, typename Arg>\<close> (line 97), so the return type is \<open>TCurried A F\<close>.
\<close>

fun declared_type :: "sigs \<Rightarrow> overload \<Rightarrow> cty \<Rightarrow> cty option \<Rightarrow> cty subst" where
  "declared_type S Capture F (Some A) =
     (case ResultOf S F [A] of
        Substituted R \<Rightarrow> enable_if_t (\<not> IsVoidCallable S R) (TPromiseLike (TCurried A F))
      | SubstitutionFailure \<Rightarrow> SubstitutionFailure
      | HardError \<Rightarrow> HardError)"
| "declared_type S DropArgWrap F (Some A) =
     (case ResultOf S F [] of
        Substituted R \<Rightarrow> enable_if_t (\<not> IsVoidCallable S R) (TPromiseLike (RemoveCVRef F))
      | SubstitutionFailure \<Rightarrow> SubstitutionFailure
      | HardError \<Rightarrow> HardError)"
| "declared_type S Wrap F None =
     (case ResultOf S F [] of
        Substituted R \<Rightarrow> enable_if_t (\<not> IsVoidCallable S R) (TPromiseLike (RemoveCVRef F))
      | SubstitutionFailure \<Rightarrow> SubstitutionFailure
      | HardError \<Rightarrow> HardError)"
| "declared_type S Call1 F (Some A) =
     (case ResultOf S F [A] of
        Substituted R \<Rightarrow> enable_if_t (IsVoidCallable S R) (TPromiseLike R)
      | SubstitutionFailure \<Rightarrow> SubstitutionFailure
      | HardError \<Rightarrow> HardError)"
| "declared_type S DropArgCall0 F (Some A) =
     (case ResultOf S F [] of
        Substituted R \<Rightarrow> enable_if_t (IsVoidCallable S R) (TPromiseLike R)
      | SubstitutionFailure \<Rightarrow> SubstitutionFailure
      | HardError \<Rightarrow> HardError)"
| "declared_type S Call0 F None =
     (case ResultOf S F [] of
        Substituted R \<Rightarrow> enable_if_t (IsVoidCallable S R) (TPromiseLike R)
      | SubstitutionFailure \<Rightarrow> SubstitutionFailure
      | HardError \<Rightarrow> HardError)"
| "declared_type S ov F Aopt = SubstitutionFailure"

text \<open>
  Overload resolution. The overloads that take an argument have the parameter lists
  \<open>(F&&, A&&)\<close> (lines 114, 137, 146) and \<open>(F, A&&)\<close> (line 122); passing a callable to
  \<open>F\<close> and to \<open>F&&\<close> are both exact matches and neither template is more specialised, so
  among several viable candidates none is better and the call is ambiguous.
\<close>

datatype resolution = Selected overload cty | NoViable | Ambiguous | IllFormed

fun viable :: "(overload \<times> cty subst) list \<Rightarrow> (overload \<times> cty) list" where
  "viable [] = []"
| "viable ((ov, Substituted T) # rs) = (ov, T) # viable rs"
| "viable ((ov, r) # rs) = viable rs"

definition resolve :: "sigs \<Rightarrow> cty \<Rightarrow> cty option \<Rightarrow> resolution" where
  "resolve S F Aopt =
     (let rs = map (\<lambda>ov. (ov, declared_type S ov F Aopt)) overloads in
      if HardError \<in> set (map snd rs) then IllFormed
      else case viable rs of
             [] \<Rightarrow> NoViable
           | [(ov, T)] \<Rightarrow> Selected ov T
           | _ \<Rightarrow> Ambiguous)"

text \<open>
  Instantiating the class \<open>Curried<F, Arg>\<close> instantiates its member alias \<open>Result\<close>
  (line 102), which needs \<open>F\<close> to be callable with \<open>Arg\<close>.
\<close>

definition Curried_well_formed :: "sigs \<Rightarrow> cty \<Rightarrow> cty \<Rightarrow> bool" where
  "Curried_well_formed S F Arg = (invoke_result S F [Arg] \<noteq> None)"

text \<open>
  Whether the body of the selected overload compiles. Only the body of \<open>Capture\<close> names
  a class of this header: it constructs \<open>Curried<A, F>\<close> (line 115).
\<close>

fun body_well_formed :: "sigs \<Rightarrow> overload \<Rightarrow> cty \<Rightarrow> cty option \<Rightarrow> bool" where
  "body_well_formed S Capture F (Some A) = Curried_well_formed S A F"
| "body_well_formed S ov F Aopt = True"

text \<open>
  The outcome of compiling \<open>PromiseFactoryImpl(f, arg)\<close> or \<open>PromiseFactoryImpl(f)\<close>.
\<close>

definition instantiate :: "sigs \<Rightarrow> cty \<Rightarrow> cty option \<Rightarrow> resolution" where
  "instantiate S F Aopt =
     (case resolve S F Aopt of
        Selected ov T \<Rightarrow> (if body_well_formed S ov F Aopt then Selected ov T else IllFormed)
      | r \<Rightarrow> r)"

subsection \<open>Run-time values: Status, callables, Curried, PromiseLike\<close>

text \<open>
  Modelled from the spec: poll.h is not among the sources. A Status is either pending
  or done with a value.
\<close>

datatype 'r Poll = Pending | Ready 'r

text \<open>
  A callable of no argument is a function \<open>'w \<Rightarrow> 'r \<times> 'w\<close>: it returns its result and the
  world after its side effects. A callable of one argument takes the argument first.
  A promise is a callable of no argument that returns a Status.
\<close>

type_synonym ('w, 'r) callable0 = "'w \<Rightarrow> 'r \<times> 'w"
type_synonym ('a, 'w, 'r) callable1 = "'a \<Rightarrow> 'w \<Rightarrow> 'r \<times> 'w"
type_synonym ('w, 't) promise = "'w \<Rightarrow> 't Poll \<times> 'w"

text \<open>
  Lines 97-108. The class has the two fields \<open>f_\<close> and \<open>arg_\<close> (here \<open>curried_f\<close> and
  \<open>curried_arg\<close>) and no other; \<open>operator()\<close> is \<open>return f_(arg_);\<close>.
\<close>

datatype ('f, 'arg) Curried = Curried (curried_f: 'f) (curried_arg: 'arg)

definition Curried_call :: "(('arg, 'w, 'r) callable1, 'arg) Curried \<Rightarrow> ('w, 'r) callable0" where
  "Curried_call c w = curried_f c (curried_arg c) w"

text \<open>
  Modelled from the spec: promise\_like.h is not among the sources. \<open>PromiseLike<F>\<close>
  holds a callable of no argument; invoking it invokes the callable and yields a Status:
  \<open>done(v)\<close> for a raw result \<open>v\<close>, the result itself when it is a Status already. Which
  of the two applies is fixed by the result type of \<open>F\<close>, so it is the parameter \<open>wrap\<close>,
  \<open>WrapInPoll_raw\<close> or \<open>WrapInPoll_status\<close>.
\<close>

definition WrapInPoll_raw :: "'r \<Rightarrow> 'r Poll" where
  "WrapInPoll_raw v = Ready v"

definition WrapInPoll_status :: "'r Poll \<Rightarrow> 'r Poll" where
  "WrapInPoll_status s = s"

definition PromiseLike :: "('r \<Rightarrow> 't Poll) \<Rightarrow> ('w, 'r) callable0 \<Rightarrow> ('w, 't) promise" where
  "PromiseLike wrap f w = (case f w of (v, w') \<Rightarrow> (wrap v, w'))"

subsection \<open>The bodies of the overloads\<close>

text \<open>
  Each body returns the promise together with the world after the adaptation, so that
  what the adaptation itself does to the world is visible. The callable \<open>f\<close> of a body
  is the call operator that \<open>f()\<close> reaches in that body.

  The body of \<open>Capture\<close> (line 115) constructs \<open>Curried<A, F>\<close> from \<open>(f, arg)\<close>: the
  field \<open>f_\<close> has the type \<open>A\<close> and receives the callable, the field \<open>arg_\<close> has the type
  \<open>F\<close> and receives the argument. It has no instance at the types of a callable and its
  argument; \<open>body_well_formed\<close> above is its model. The bodies of the other overloads
  that take an argument (lines 123, 138, 147) are never reached either: no call with
  an argument selects an overload (\<open>resolve_with_argument\<close> below). So the bodies that
  run are those of the two overloads that take the callable alone.
\<close>

text \<open>Lines 127-131: \<open>return PromiseLike<F>(std::move(f));\<close>, with \<open>f\<close> taken by value.\<close>

definition PromiseFactoryImpl_Wrap ::
  "('r \<Rightarrow> 't Poll) \<Rightarrow> ('w, 'r) callable0 \<Rightarrow> 'w \<Rightarrow> ('w, 't) promise \<times> 'w" where
  "PromiseFactoryImpl_Wrap wrap f w = (PromiseLike wrap f, w)"

text \<open>
  Lines 151-156: \<open>return f();\<close>, with \<open>f\<close> taken as \<open>F&&\<close>, the result converted to
  the declared \<open>PromiseLike\<close> over it.
\<close>

definition PromiseFactoryImpl_Call0 ::
  "('r \<Rightarrow> 't Poll) \<Rightarrow> ('w, ('w, 'r) callable0) callable0 \<Rightarrow> 'w \<Rightarrow> ('w, 't) promise \<times> 'w" where
  "PromiseFactoryImpl_Call0 wrap f w = (case f w of (p, w') \<Rightarrow> (PromiseLike wrap p, w'))"

subsection \<open>PromiseFactory\<close>

text \<open>
  Lines 158-193. The class has the one field \<open>f_\<close> (here \<open>factory_f\<close>), the callable,
  given by the call operator that a call on the non-const member reaches. Which overload
  \<open>PromiseFactoryImpl\<close> names is fixed by the types \<open>A\<close> and \<open>F\<close> of the class, so the
  methods take the body of that overload as \<open>impl\<close>. Each returns the promise, the
  factory after the call and the world after the call.

  The alias \<open>Promise\<close> (lines 165-166, 186) is the type of the call
  \<open>PromiseFactoryImpl(std::move(f_), std::declval<A>())\<close>, or of
  \<open>PromiseFactoryImpl(std::move(f_))\<close> in the specialisation; the call is not evaluated,
  only resolved. Both methods are declared with it (lines 170, 174, 190, 192).
\<close>

definition Promise :: "sigs \<Rightarrow> cty \<Rightarrow> cty option \<Rightarrow> resolution" where
  "Promise S F Aopt = resolve S F Aopt"

definition Once_type :: "sigs \<Rightarrow> cty \<Rightarrow> cty option \<Rightarrow> resolution" where
  "Once_type S F Aopt = Promise S F Aopt"

definition Repeated_type :: "sigs \<Rightarrow> cty \<Rightarrow> cty option \<Rightarrow> resolution" where
  "Repeated_type S F Aopt = Promise S F Aopt"

text \<open>
  \<open>Once\<close> passes \<open>std::move(f_)\<close>; \<open>moved\<close> is what that leaves in \<open>f_\<close>: the moved-from
  state of the callable's type where the overload takes the callable by value
  (lines 122, 129), the callable itself where the overload only calls through the
  reference (lines 138, 147, 155).
\<close>

datatype 'f PromiseFactory = PromiseFactory (factory_f: 'f)

definition Once ::
  "('f \<Rightarrow> 'f) \<Rightarrow> ('f \<Rightarrow> 'a \<Rightarrow> 'w \<Rightarrow> 'p \<times> 'w) \<Rightarrow> 'f PromiseFactory \<Rightarrow> 'a \<Rightarrow> 'w
     \<Rightarrow> 'p \<times> 'f PromiseFactory \<times> 'w" where
  "Once moved impl fac a w =
     (case impl (factory_f fac) a w of
        (p, w') \<Rightarrow> (p, PromiseFactory (moved (factory_f fac)), w'))"

text \<open>The specialisation \<open>PromiseFactory<void, F>\<close>, lines 179-193.\<close>

definition Once_void ::
  "('f \<Rightarrow> 'f) \<Rightarrow> ('f \<Rightarrow> 'w \<Rightarrow> 'p \<times> 'w) \<Rightarrow> 'f PromiseFactory \<Rightarrow> 'w
     \<Rightarrow> 'p \<times> 'f PromiseFactory \<times> 'w" where
  "Once_void moved impl fac w =
     (case impl (factory_f fac) w of
        (p, w') \<Rightarrow> (p, PromiseFactory (moved (factory_f fac)), w'))"

text \<open>
  \<open>Repeated()\<close> (line 192) is a const member: it passes \<open>f_\<close> as a const lvalue and
  leaves the factory as it is. What the parameter \<open>f\<close> of the selected overload then is
  depends on how that overload declares it:
  \<^item> \<open>F f\<close> (line 129): \<open>f\<close> is a copy of \<open>f_\<close>. \<open>ByValue copy\<close>, where \<open>copy\<close> is the copy
    constructor of the callable's class: it gives the copy and the world after copying.
    The copy is a non-const object, and so is the one \<open>PromiseLike\<close> holds.
  \<^item> \<open>F&& f\<close> (line 154): \<open>F\<close> is deduced as \<open>const T&\<close> and \<open>f\<close> is \<open>f_\<close> itself, seen
    const, so \<open>f()\<close> reaches the const call operator. \<open>ByConstRef view\<close>, where \<open>view f\<close> is
    the const call operator of the object, \<open>None\<close> when its class has none; then
    \<open>decltype(std::declval<F>()())\<close> in the return type (line 153) fails to substitute,
    no overload is viable and the call does not compile: the result is \<open>None\<close>.
  \<open>Repeated(Arg&&)\<close> of the class with an argument (lines 174-176) has no run-time
  model: its call of \<open>PromiseFactoryImpl\<close> never selects an overload.
\<close>

datatype ('f, 'w) binding = ByValue "'f \<Rightarrow> 'w \<Rightarrow> 'f \<times> 'w" | ByConstRef "'f \<Rightarrow> 'f option"

definition Repeated_void ::
  "('f, 'w) binding \<Rightarrow> ('f \<Rightarrow> 'w \<Rightarrow> 'p \<times> 'w) \<Rightarrow> 'f PromiseFactory \<Rightarrow> 'w
     \<Rightarrow> ('p \<times> 'f PromiseFactory \<times> 'w) option" where
  "Repeated_void b impl fac w =
     (case b of
        ByValue copy \<Rightarrow>
          (case copy (factory_f fac) w of
             (f', w1) \<Rightarrow> (case impl f' w1 of (p, w2) \<Rightarrow> Some (p, fac, w2)))
      | ByConstRef view \<Rightarrow>
          (case view (factory_f fac) of
             None \<Rightarrow> None
           | Some fc \<Rightarrow> (case impl fc w of (p, w1) \<Rightarrow> Some (p, fac, w1))))"

text \<open>
  A caller that calls \<open>Repeated()\<close> \<open>n\<close> times on one factory and polls each promise
  once, as a loop combinator does; it collects the Status results.
\<close>

fun Repeated_void_times ::
  "nat \<Rightarrow> ('f, 'w) binding \<Rightarrow> ('f \<Rightarrow> 'w \<Rightarrow> ('w, 't) promise \<times> 'w) \<Rightarrow> 'f PromiseFactory \<Rightarrow> 'w
     \<Rightarrow> ('t Poll list \<times> 'f PromiseFactory \<times> 'w) option" where
  "Repeated_void_times 0 b impl fac w = Some ([], fac, w)"
| "Repeated_void_times (Suc n) b impl fac w =
     (case Repeated_void b impl fac w of
        None \<Rightarrow> None
      | Some (p, fac1, w1) \<Rightarrow>
          (case p w1 of
             (s, w2) \<Rightarrow>
               (case Repeated_void_times n b impl fac1 w2 of
                  None \<Rightarrow> None
                | Some (ss, fac2, w3) \<Rightarrow> Some (s # ss, fac2, w3))))"

subsection \<open>Concrete callables\<close>

text \<open>
  \<open>inc = [](int x){ return x+1; }\<close> as the class \<open>TClass 0\<close>: callable with an \<open>int\<close>,
  returning \<open>int\<close>, and not callable without argument.
\<close>

definition inc_sigs :: sigs where
  "inc_sigs n args = (if n = 0 \<and> args = [TInt] then Some TInt else None)"

text \<open>\<open>poll_fn = [](int x) -> Poll<int> { ... }\<close> as the class \<open>TClass 0\<close>.\<close>

definition poll_fn_sigs :: sigs where
  "poll_fn_sigs n args = (if n = 0 \<and> args = [TInt] then Some (TPoll TInt) else None)"

text \<open>
  A callable that can ignore its input, a functor with the two call operators
  \<open>int operator()()\<close> and \<open>int operator()(int)\<close>, as the class \<open>TClass 0\<close>.
\<close>

definition ignoring_sigs :: sigs where
  "ignoring_sigs n args = (if n = 0 \<and> (args = [] \<or> args = [TInt]) then Some TInt else None)"

text \<open>
  \<open>[]() { return Poll<int>(42); }\<close> as \<open>TClass 0\<close>, a callable \<open>TClass 1\<close> of no
  argument that returns it, and a callable \<open>TClass 2\<close> of an \<open>int\<close> that returns it.
\<close>

definition status_sigs :: sigs where
  "status_sigs n args =
     (if n = 0 \<and> args = [] then Some (TPoll TInt)
      else if n = 1 \<and> args = [] then Some (TClass 0)
      else if n = 2 \<and> args = [TInt] then Some (TClass 0)
      else None)"

text \<open>Run-time callables; the world is a counter.\<close>

definition ready42 :: "(nat, int Poll) callable0" where
  "ready42 w = (Ready 42, w)"

definition raw42 :: "(nat, int) callable0" where
  "raw42 w = (42, w)"

definition counting_poll :: "(nat, int Poll) callable0" where
  "counting_poll w = (Ready (int w), w)"

text \<open>A callable that counts its calls in the world and returns a promise.\<close>

definition make_promise :: "(nat, (nat, int Poll) callable0) callable0" where
  "make_promise w = (counting_poll, Suc w)"


definition next_value :: "(int, nat, int) callable1" where
  "next_value x w = (x + int w, Suc w)"

definition inc :: "(int, nat, int) callable1" where
  "inc x w = (x + 1, w)"

text \<open>
  A class with two call operators, \<open>operator()()\<close> returning a promise of \<open>done(1)\<close> and
  \<open>operator()() const\<close> returning a promise of \<open>done(2)\<close>: \<open>const_split\<close> is the first,
  \<open>const_split_const\<close> the second.
\<close>

definition ready1 :: "(nat, int Poll) callable0" where
  "ready1 w = (Ready 1, w)"

definition ready2 :: "(nat, int Poll) callable0" where
  "ready2 w = (Ready 2, w)"

definition const_split :: "(nat, (nat, int Poll) callable0) callable0" where
  "const_split w = (ready1, w)"

definition const_split_const :: "(nat, (nat, int Poll) callable0) callable0" where
  "const_split_const w = (ready2, w)"

definition const_split_view ::
  "(nat, (nat, int Poll) callable0) callable0 \<Rightarrow> (nat, (nat, int Poll) callable0) callable0 option"
  where
  "const_split_view f = Some const_split_const"

text \<open>
  A lambda has the one call operator, const: seen const it is itself. A \<open>mutable\<close>
  lambda has no const call operator.
\<close>

definition lambda_view :: "'f \<Rightarrow> 'f option" where
  "lambda_view f = Some f"

definition mutable_lambda_view :: "'f \<Rightarrow> 'f option" where
  "mutable_lambda_view f = None"

text \<open>
  Copy constructors: that of a lambda without captures, which has no effect, and one
  that counts the copies made in the world.
\<close>

definition trivial_copy :: "'f \<Rightarrow> 'w \<Rightarrow> 'f \<times> 'w" where
  "trivial_copy f w = (f, w)"


section \<open>Properties\<close>

subsection \<open>Overload resolution\<close>

lemma ResultOf_Some: "invoke_result S F Args = Some R \<Longrightarrow> ResultOf S F Args = Substituted R"
  by (simp add: ResultOf_def ResultOfTInner_def RemoveCVRef_def)

lemma ResultOf_None: "invoke_result S F Args = None \<Longrightarrow> ResultOf S F Args = HardError"
  by (simp add: ResultOf_def ResultOfTInner_def RemoveCVRef_def)

lemma not_IsVoidCallable_TPoll: "\<not> IsVoidCallable S (TPoll T)"
  by (simp add: IsVoidCallable_def)

lemma not_IsVoidCallable_TInt: "\<not> IsVoidCallable S TInt"
  by (simp add: IsVoidCallable_def)

text \<open>
  A call with the callable alone: the two overloads of one parameter have complementary
  guards, so exactly one is selected.
\<close>

lemma resolve_void:
  assumes "invoke_result S F [] = Some R"
  shows "resolve S F None =
     (if IsVoidCallable S R then Selected Call0 (TPromiseLike R)
      else Selected Wrap (TPromiseLike F))"
  using assms
  by (simp add: resolve_def overloads_def ResultOf_Some enable_if_t_def RemoveCVRef_def)

lemma resolve_void_not_callable:
  assumes "invoke_result S F [] = None"
  shows "resolve S F None = IllFormed"
  using assms by (simp add: resolve_def overloads_def ResultOf_None)

text \<open>
  A call with an argument: all four overloads of two parameters are substituted, and
  each asks for \<open>ResultOf<F(A)>\<close> or \<open>ResultOf<F()>\<close>.
\<close>

lemma resolve_both:
  assumes "invoke_result S F [] = Some R0" and "invoke_result S F [A] = Some R1"
  shows "resolve S F (Some A) = Ambiguous"
  using assms
  by (simp add: resolve_def overloads_def ResultOf_Some enable_if_t_def RemoveCVRef_def)

lemma resolve_arg_only_one_arity:
  assumes "invoke_result S F [] = None \<or> invoke_result S F [A] = None"
  shows "resolve S F (Some A) = IllFormed"
  using assms by (auto simp add: resolve_def overloads_def ResultOf_None)

text \<open>
  So a call with an argument never selects an overload: the alias \<open>Promise\<close> of
  \<open>PromiseFactory<A, F>\<close> (lines 165-166) names no type whatever \<open>F\<close> and \<open>A\<close> are.
\<close>

lemma resolve_with_argument:
  "resolve S F (Some A) = Ambiguous \<or> resolve S F (Some A) = IllFormed"
proof (cases "invoke_result S F [] = None \<or> invoke_result S F [A] = None")
  case True
  then show ?thesis by (simp add: resolve_arg_only_one_arity)
next
  case False
  then obtain R0 R1 where "invoke_result S F [] = Some R0" and "invoke_result S F [A] = Some R1"
    by auto
  then show ?thesis by (simp add: resolve_both)
qed

lemma instantiate_with_argument:
  "instantiate S F (Some A) = Ambiguous \<or> instantiate S F (Some A) = IllFormed"
  using resolve_with_argument [of S F A] by (auto simp add: instantiate_def)

text \<open>
  C1. Claim: for a callable \<open>f\<close> of one argument returning a raw value, and an argument
  \<open>x\<close>, \<open>PromiseFactoryImpl(f, x)\<close> is a promise whose invocation returns \<open>done(f(x))\<close>.
  At \<open>inc = [](int x){ return x+1; }\<close> and \<open>A = int\<close> the guard of the capturing overload
  (lines 112-116) holds and its declared type is \<open>PromiseLike<Curried<int, inc>>\<close>, with
  the template arguments of \<open>Curried\<close> exchanged: \<open>Curried<int, inc>::Result\<close> would be the
  type of calling an \<open>int\<close> with an \<open>inc\<close>, so the class is ill-formed and the adaptation
  does not compile.
\<close>

theorem Capture_inc_ill_formed:
  "declared_type inc_sigs Capture (TClass 0) (Some TInt) =
     Substituted (TPromiseLike (TCurried TInt (TClass 0)))
   \<and> \<not> Curried_well_formed inc_sigs TInt (TClass 0)
   \<and> \<not> body_well_formed inc_sigs Capture (TClass 0) (Some TInt)
   \<and> instantiate inc_sigs (TClass 0) (Some TInt) = IllFormed"
  by (simp add: instantiate_def resolve_def overloads_def ResultOf_def ResultOfTInner_def
      RemoveCVRef_def inc_sigs_def enable_if_t_def IsVoidCallable_def Curried_well_formed_def)

text \<open>
  C2, as amended. For a callable that can be called both without argument and with the
  supplied argument, an overload that uses the argument and an overload that drops it
  both pass their guards; they take the same arguments, so the call is ambiguous and
  no strategy is selected.
\<close>

theorem both_arities_ambiguous:
  "invoke_result S F [] = Some R0 \<Longrightarrow> invoke_result S F [A] = Some R1 \<Longrightarrow>
   resolve S F (Some A) = Ambiguous \<and> instantiate S F (Some A) = Ambiguous"
  by (simp add: resolve_both instantiate_def)

theorem both_arities_ambiguous_witness:
  "invoke_result ignoring_sigs (TClass 0) [] = Some TInt
   \<and> invoke_result ignoring_sigs (TClass 0) [TInt] = Some TInt
   \<and> resolve ignoring_sigs (TClass 0) (Some TInt) = Ambiguous
   \<and> instantiate ignoring_sigs (TClass 0) (Some TInt) = Ambiguous"
proof -
  have h0: "invoke_result ignoring_sigs (TClass 0) [] = Some TInt"
    by (simp add: ignoring_sigs_def)
  have h1: "invoke_result ignoring_sigs (TClass 0) [TInt] = Some TInt"
    by (simp add: ignoring_sigs_def)
  show ?thesis using h0 h1 both_arities_ambiguous [OF h0 h1] by simp
qed

text \<open>
  C2, as claimed (the overload that drops the argument is selected), fails at the
  callable that ignores its input, with \<open>A = int\<close>.
\<close>

theorem ignoring_callable_not_selected:
  "resolve ignoring_sigs (TClass 0) (Some TInt) \<noteq> Selected DropArgWrap (TPromiseLike (TClass 0))
   \<and> resolve ignoring_sigs (TClass 0) (Some TInt) = Ambiguous"
  by (simp add: resolve_def overloads_def ResultOf_def ResultOfTInner_def RemoveCVRef_def
      ignoring_sigs_def enable_if_t_def IsVoidCallable_def)

text \<open>
  C3, as amended. For a callable \<open>f\<close> of one argument that returns a Status, the guard
  of the overload that calls \<open>f(arg)\<close> at adaptation time (lines 134-139) rejects it and
  the guard of the capturing overload (lines 112-116) accepts it: the declared promise
  is a \<open>PromiseLike\<close> over a \<open>Curried\<close> pair, which holds the argument.
\<close>

theorem status_callable_is_captured:
  "invoke_result S F [A] = Some (TPoll T) \<Longrightarrow>
   declared_type S Call1 F (Some A) = SubstitutionFailure
   \<and> declared_type S Capture F (Some A) = Substituted (TPromiseLike (TCurried A F))"
  by (simp add: ResultOf_Some enable_if_t_def not_IsVoidCallable_TPoll)

theorem status_callable_is_captured_witness:
  "invoke_result poll_fn_sigs (TClass 0) [TInt] = Some (TPoll TInt)
   \<and> declared_type poll_fn_sigs Call1 (TClass 0) (Some TInt) = SubstitutionFailure
   \<and> declared_type poll_fn_sigs Capture (TClass 0) (Some TInt) =
       Substituted (TPromiseLike (TCurried TInt (TClass 0)))"
proof -
  have h: "invoke_result poll_fn_sigs (TClass 0) [TInt] = Some (TPoll TInt)"
    by (simp add: poll_fn_sigs_def)
  show ?thesis using h status_callable_is_captured [OF h] by simp
qed

text \<open>
  C3, as claimed (the argument is consumed at adaptation time, not retained), fails at
  \<open>poll_fn\<close> with \<open>A = int\<close>: the overload that calls \<open>f(arg)\<close> is not viable.
\<close>

theorem poll_fn_not_called_at_adaptation:
  "declared_type poll_fn_sigs Call1 (TClass 0) (Some TInt) = SubstitutionFailure
   \<and> resolve poll_fn_sigs (TClass 0) (Some TInt) \<noteq> Selected Call1 (TPromiseLike (TPoll TInt))"
  by (simp add: resolve_def overloads_def ResultOf_def ResultOfTInner_def RemoveCVRef_def
      poll_fn_sigs_def enable_if_t_def IsVoidCallable_def)

subsection \<open>Once and Repeated\<close>

lemma Once_void_Wrap:
  "Once_void moved (PromiseFactoryImpl_Wrap wrap) (PromiseFactory f) w
     = (PromiseLike wrap f, PromiseFactory (moved f), w)"
  by (simp add: Once_void_def PromiseFactoryImpl_Wrap_def)

lemma Once_void_Call0:
  "Once_void moved (PromiseFactoryImpl_Call0 wrap) (PromiseFactory g) w
     = (PromiseLike wrap (fst (g w)), PromiseFactory (moved g), snd (g w))"
  by (simp add: Once_void_def PromiseFactoryImpl_Call0_def split: prod.splits)

lemma Repeated_void_Wrap:
  "Repeated_void (ByValue copy) (PromiseFactoryImpl_Wrap wrap) (PromiseFactory f) w
     = Some (PromiseLike wrap (fst (copy f w)), PromiseFactory f, snd (copy f w))"
  by (simp add: Repeated_void_def PromiseFactoryImpl_Wrap_def split: prod.splits)

lemma Repeated_void_Call0:
  "view g = Some gc \<Longrightarrow>
   Repeated_void (ByConstRef view) (PromiseFactoryImpl_Call0 wrap) (PromiseFactory g) w
     = Some (PromiseLike wrap (fst (gc w)), PromiseFactory g, snd (gc w))"
  by (simp add: Repeated_void_def PromiseFactoryImpl_Call0_def split: prod.splits)

lemma Repeated_void_Call0_no_const:
  "view g = None \<Longrightarrow>
   Repeated_void (ByConstRef view) (PromiseFactoryImpl_Call0 wrap) (PromiseFactory g) w = None"
  by (simp add: Repeated_void_def)

text \<open>
  C4, as amended. For a factory without argument, \<open>Once\<close> and \<open>Repeated\<close> are declared
  with the one return type \<open>Promise\<close>. Where the callable is adapted by the overload
  that takes it by value (lines 127-131), the promise of \<open>Repeated\<close> is the
  \<open>PromiseLike\<close> over a copy of the callable, that of \<open>Once\<close> the \<open>PromiseLike\<close> over the
  callable: the same promise when the copy equals the original. Where the callable
  returns a promise (lines 151-156), \<open>Once\<close> calls the call operator of the non-const
  member and \<open>Repeated\<close> the const call operator: their promises are the values the two
  operators return, the same when the class has the one operator.
\<close>

theorem Once_void_Repeated_void_promises:
  assumes "fst (copy f w) = f" and "view g = Some gc"
  shows "Once_type S F None = Repeated_type S F None
       \<and> Repeated_void (ByValue copy) (PromiseFactoryImpl_Wrap wrap) (PromiseFactory f) w
           = Some (fst (Once_void moved (PromiseFactoryImpl_Wrap wrap) (PromiseFactory f) w),
                   PromiseFactory f, snd (copy f w))
       \<and> fst (Once_void moved' (PromiseFactoryImpl_Call0 wrap') (PromiseFactory g) w)
           = PromiseLike wrap' (fst (g w))
       \<and> map_option fst
           (Repeated_void (ByConstRef view) (PromiseFactoryImpl_Call0 wrap') (PromiseFactory g) w)
           = Some (PromiseLike wrap' (fst (gc w)))
       \<and> (gc = g \<longrightarrow>
            map_option fst
              (Repeated_void (ByConstRef view) (PromiseFactoryImpl_Call0 wrap') (PromiseFactory g) w)
            = Some (fst (Once_void moved' (PromiseFactoryImpl_Call0 wrap') (PromiseFactory g) w)))"
  using assms
  by (simp add: Once_type_def Repeated_type_def Once_void_Wrap Once_void_Call0
      Repeated_void_Wrap Repeated_void_Call0)

theorem Once_void_Repeated_void_promises_witness:
  "fst (trivial_copy raw42 (0::nat)) = raw42
   \<and> lambda_view make_promise = Some make_promise
   \<and> Once_type status_sigs (TClass 1) None = Repeated_type status_sigs (TClass 1) None
   \<and> Repeated_void (ByValue trivial_copy) (PromiseFactoryImpl_Wrap WrapInPoll_raw)
        (PromiseFactory raw42) 0
       = Some (fst (Once_void id (PromiseFactoryImpl_Wrap WrapInPoll_raw) (PromiseFactory raw42) 0),
               PromiseFactory raw42, 0)
   \<and> map_option fst
        (Repeated_void (ByConstRef lambda_view) (PromiseFactoryImpl_Call0 WrapInPoll_status)
           (PromiseFactory make_promise) 0)
       = Some (fst (Once_void id (PromiseFactoryImpl_Call0 WrapInPoll_status)
                      (PromiseFactory make_promise) 0))"
proof -
  have c: "fst (trivial_copy raw42 (0::nat)) = raw42" by (simp add: trivial_copy_def)
  have v: "lambda_view make_promise = Some make_promise" by (simp add: lambda_view_def)
  show ?thesis
    using c v
      Once_void_Repeated_void_promises
        [where copy = trivial_copy and f = raw42 and w = 0 and view = lambda_view
           and g = make_promise and gc = make_promise and S = status_sigs and F = "TClass 1"
           and wrap = WrapInPoll_raw and moved = id and wrap' = WrapInPoll_status
           and moved' = id]
    by (simp add: trivial_copy_def)
qed

text \<open>
  C4, as claimed (with equal callable the promises of \<open>Once\<close> and \<open>Repeated\<close> behave
  identically), fails at the class with the two call operators: the promise of
  \<open>Once()\<close> yields \<open>done(1)\<close>, that of \<open>Repeated()\<close> yields \<open>done(2)\<close>.
\<close>

theorem const_split_Once_Repeated_differ:
  "Once_void id (PromiseFactoryImpl_Call0 WrapInPoll_status) (PromiseFactory const_split) 0
     = (PromiseLike WrapInPoll_status ready1, PromiseFactory const_split, 0)
   \<and> Repeated_void (ByConstRef const_split_view) (PromiseFactoryImpl_Call0 WrapInPoll_status)
        (PromiseFactory const_split) 0
     = Some (PromiseLike WrapInPoll_status ready2, PromiseFactory const_split, 0)
   \<and> PromiseLike WrapInPoll_status ready1 0 = (Ready 1, 0)
   \<and> PromiseLike WrapInPoll_status ready2 0 = (Ready 2, 0)"
  by (simp add: Once_void_Call0 Repeated_void_Call0 const_split_view_def const_split_def
      const_split_const_def PromiseLike_def WrapInPoll_status_def ready1_def ready2_def)

text \<open>
  C5, as amended. \<open>Once\<close> hands the stored callable to the adaptation as an rvalue and
  leaves in \<open>f_\<close> what that leaves there; the class does not prevent a second call of
  \<open>Once\<close> on the same factory, which adapts the callable in the state the first call
  left it in.
\<close>

theorem Once_twice_adapts_moved_from:
  "Once_void moved impl0 (fst (snd (Once_void moved impl0 fac w))) w1 =
     (fst (impl0 (moved (factory_f fac)) w1),
      PromiseFactory (moved (moved (factory_f fac))),
      snd (impl0 (moved (factory_f fac)) w1))
   \<and> Once moved impl (fst (snd (Once moved impl fac a w))) a1 w1 =
     (fst (impl (moved (factory_f fac)) a1 w1),
      PromiseFactory (moved (moved (factory_f fac))),
      snd (impl (moved (factory_f fac)) a1 w1))"
  by (simp add: Once_def Once_void_def split: prod.splits)

text \<open>
  C5, as claimed (a second \<open>Once\<close> on the same factory cannot be expressed), fails at the
  factory over \<open>[]() { return Poll<int>(42); }\<close>, a lambda without captures, whose
  moved-from state is the lambda itself: the second \<open>Once\<close> on the factory that the
  first one left yields a promise, and that promise yields \<open>done(42)\<close>.
\<close>

theorem second_Once_yields_promise:
  "fst (Once_void id (PromiseFactoryImpl_Wrap WrapInPoll_status)
         (fst (snd (Once_void id (PromiseFactoryImpl_Wrap WrapInPoll_status)
                     (PromiseFactory ready42) 0))) 0) 0
   = (Ready 42, 0)"
  by (simp add: Once_void_def PromiseFactoryImpl_Wrap_def PromiseLike_def WrapInPoll_status_def
      ready42_def)

text \<open>
  C6. For a callable \<open>f\<close> of no argument that returns a Status, the adaptation selects
  the overload of lines 127-131, the adaptation itself has no effect, and invoking the
  promise returns exactly what \<open>f\<close> returns, through \<open>PromiseFactoryImpl\<close> and \<open>Once\<close>;
  through \<open>Repeated\<close> it returns exactly what the copy of \<open>f\<close> returns, which is what \<open>f\<close>
  returns when the copy is \<open>f\<close>.
\<close>

theorem Wrap_status_identity:
  "invoke_result S F [] = Some (TPoll T) \<Longrightarrow>
   instantiate S F None = Selected Wrap (TPromiseLike F)
   \<and> snd (PromiseFactoryImpl_Wrap WrapInPoll_status f w) = w
   \<and> fst (PromiseFactoryImpl_Wrap WrapInPoll_status f w) w' = f w'
   \<and> fst (Once_void moved (PromiseFactoryImpl_Wrap WrapInPoll_status) (PromiseFactory f) w) w'
       = f w'
   \<and> map_option (\<lambda>r. fst r w')
        (Repeated_void (ByValue copy) (PromiseFactoryImpl_Wrap WrapInPoll_status)
           (PromiseFactory f) w)
       = Some (fst (copy f w) w')
   \<and> map_option (\<lambda>r. fst r w')
        (Repeated_void (ByValue trivial_copy) (PromiseFactoryImpl_Wrap WrapInPoll_status)
           (PromiseFactory f) w)
       = Some (f w')"
  by (simp add: instantiate_def resolve_void not_IsVoidCallable_TPoll PromiseFactoryImpl_Wrap_def
      PromiseLike_def WrapInPoll_status_def Once_void_def Repeated_void_def trivial_copy_def
      split: prod.splits)

theorem Wrap_status_identity_witness:
  "invoke_result status_sigs (TClass 0) [] = Some (TPoll TInt)
   \<and> instantiate status_sigs (TClass 0) None = Selected Wrap (TPromiseLike (TClass 0))
   \<and> fst (Once_void id (PromiseFactoryImpl_Wrap WrapInPoll_status) (PromiseFactory ready42) 0) 7
       = (Ready 42, 7)
   \<and> map_option (\<lambda>r. fst r 7)
        (Repeated_void (ByValue trivial_copy) (PromiseFactoryImpl_Wrap WrapInPoll_status)
           (PromiseFactory ready42) 0)
       = Some (Ready 42, 7)"
proof -
  have h: "invoke_result status_sigs (TClass 0) [] = Some (TPoll TInt)"
    by (simp add: status_sigs_def)
  show ?thesis
    using h Wrap_status_identity [where S = status_sigs and F = "TClass 0" and T = TInt
                                    and f = ready42 and w = 0 and w' = 7 and moved = id
                                    and copy = trivial_copy]
    by (simp add: ready42_def)
qed

text \<open>
  The scenario of the spec: the factory without argument over \<open>[](){ return 42; }\<close>;
  \<open>Once()()\<close> yields \<open>done(42)\<close>.
\<close>

lemma Once_void_raw42:
  "fst (Once_void id (PromiseFactoryImpl_Wrap WrapInPoll_raw) (PromiseFactory raw42) 0) 0
   = (Ready 42, 0)"
  by (simp add: Once_void_def PromiseFactoryImpl_Wrap_def PromiseLike_def WrapInPoll_raw_def
      raw42_def)

subsection \<open>Repetition\<close>




text \<open>
  For a factory without argument over a pure callable (one that returns the same result
  in every world and leaves the world as it is), with a copy constructor that is pure
  as well, \<open>n\<close> calls of \<open>Repeated()\<close> give \<open>n\<close> equal Status results and leave factory
  and world as they were, on both overloads.
\<close>

lemma Repeated_void_times_fixed:
  assumes "\<forall>w. Repeated_void b impl fac w = Some (p, fac, w)" and "\<forall>w. p w = (s, w)"
  shows "Repeated_void_times n b impl fac w = Some (replicate n s, fac, w)"
  using assms by (induction n) simp_all

lemma PromiseLike_pure: "\<forall>w. f w = (v, w) \<Longrightarrow> \<forall>w. PromiseLike wrap f w = (wrap v, w)"
  by (simp add: PromiseLike_def)

lemma Repeated_void_times_pure_Wrap:
  assumes "\<forall>w. f w = (v, w)" and "\<forall>w. copy f w = (f, w)"
  shows "Repeated_void_times n (ByValue copy) (PromiseFactoryImpl_Wrap wrap) (PromiseFactory f) w
           = Some (replicate n (wrap v), PromiseFactory f, w)"
  by (rule Repeated_void_times_fixed [OF _ PromiseLike_pure [OF assms(1)]])
     (simp add: Repeated_void_Wrap assms(2))

lemma Repeated_void_times_pure_Call0:
  assumes "\<forall>w. f w = (v, w)" and "view g = Some gc" and "\<forall>w. gc w = (f, w)"
  shows "Repeated_void_times n (ByConstRef view) (PromiseFactoryImpl_Call0 wrap)
           (PromiseFactory g) w
           = Some (replicate n (wrap v), PromiseFactory g, w)"
  by (rule Repeated_void_times_fixed [OF _ PromiseLike_pure [OF assms(1)]])
     (simp add: Repeated_void_Call0 assms(2) assms(3))

lemma Repeated_void_times_raw42:
  "Repeated_void_times 3 (ByValue trivial_copy) (PromiseFactoryImpl_Wrap WrapInPoll_raw)
     (PromiseFactory raw42) 0
   = Some ([Ready 42, Ready 42, Ready 42], PromiseFactory raw42, 0)"
proof -
  have f: "\<forall>w. raw42 w = (42, w)" by (simp add: raw42_def)
  have c: "\<forall>w. trivial_copy raw42 w = (raw42, w)" by (simp add: trivial_copy_def)
  have r: "replicate 3 x = [x, x, x]" for x :: "int Poll" by (simp add: numeral_3_eq_3)
  show ?thesis
    using f c
      Repeated_void_times_pure_Wrap
        [where f = raw42 and v = 42 and copy = trivial_copy and n = 3
           and wrap = WrapInPoll_raw and w = 0]
    by (simp add: r WrapInPoll_raw_def)
qed

text \<open>
  C7. Claim: for a pure copy-constructible callable, \<open>n\<close> calls of \<open>Repeated\<close> with equal
  arguments give \<open>n\<close> promises that yield equal Status results. At the pure callable
  \<open>poll_fn\<close> and \<open>A = int\<close> the alias \<open>Promise\<close>, which is the return type of
  \<open>Repeated(Arg&&)\<close>, names no type: the overloads that drop the argument ask for
  \<open>ResultOf<F()>\<close> (lines 121, 144), an error of the program since \<open>poll_fn\<close> cannot be
  called without argument. The factory does not compile and no promise is produced.
\<close>

theorem Repeated_with_argument_ill_formed:
  "declared_type poll_fn_sigs DropArgWrap (TClass 0) (Some TInt) = HardError
   \<and> declared_type poll_fn_sigs DropArgCall0 (TClass 0) (Some TInt) = HardError
   \<and> Promise poll_fn_sigs (TClass 0) (Some TInt) = IllFormed
   \<and> Repeated_type poll_fn_sigs (TClass 0) (Some TInt) = IllFormed
   \<and> instantiate poll_fn_sigs (TClass 0) (Some TInt) = IllFormed"
  by (simp add: Repeated_type_def Promise_def instantiate_def resolve_def overloads_def
      ResultOf_def ResultOfTInner_def RemoveCVRef_def poll_fn_sigs_def enable_if_t_def
      IsVoidCallable_def)

subsection \<open>Curried\<close>

text \<open>
  C9. Invoking a \<open>Curried\<close> pair is calling its callable with its argument in the
  current world, on every invocation: a second invocation calls it again in the world
  the first one left, and nothing is stored between them; the \<open>PromiseLike\<close> over the
  pair does the same and wraps the result. So for a callable that is pure at the
  captured argument, any two invocations return equal results.
\<close>

theorem Curried_call_no_cache:
  "Curried_call (Curried f x) w = f x w
   \<and> Curried_call (Curried f x) (snd (Curried_call (Curried f x) w)) = f x (snd (f x w))
   \<and> PromiseLike wrap (Curried_call (Curried f x)) w = (wrap (fst (f x w)), snd (f x w))
   \<and> PromiseLike wrap (Curried_call (Curried f x))
        (snd (PromiseLike wrap (Curried_call (Curried f x)) w))
       = (wrap (fst (f x (snd (f x w)))), snd (f x (snd (f x w))))
   \<and> ((\<forall>u. f x u = (v, u)) \<longrightarrow>
        fst (Curried_call (Curried f x) w) = fst (Curried_call (Curried f x) w')
        \<and> fst (PromiseLike wrap (Curried_call (Curried f x)) w)
            = fst (PromiseLike wrap (Curried_call (Curried f x)) w'))"
  by (simp add: Curried_call_def PromiseLike_def split: prod.splits)

text \<open>
  At \<open>inc\<close>, which is pure, two invocations agree; at \<open>next_value\<close>, which returns its
  argument plus the number of calls made so far, the second invocation returns the next
  value.
\<close>

theorem Curried_call_no_cache_witness:
  "(\<forall>u. inc 5 u = (6, u))
   \<and> fst (Curried_call (Curried inc 5) 0) = fst (Curried_call (Curried inc 5) 1)
   \<and> fst (PromiseLike WrapInPoll_raw (Curried_call (Curried inc 5)) 0)
       = fst (PromiseLike WrapInPoll_raw (Curried_call (Curried inc 5)) 1)
   \<and> Curried_call (Curried inc 5) 0 = (6, 0)
   \<and> Curried_call (Curried next_value 3) 0 = (3, 1)
   \<and> Curried_call (Curried next_value 3) (snd (Curried_call (Curried next_value 3) 0)) = (4, 2)
   \<and> PromiseLike WrapInPoll_raw (Curried_call (Curried next_value 3))
        (snd (PromiseLike WrapInPoll_raw (Curried_call (Curried next_value 3)) 0))
       = (Ready 4, 2)"
proof -
  have h: "\<forall>u. inc 5 u = (6, u)" by (simp add: inc_def)
  note at_inc = Curried_call_no_cache [where f = inc and x = 5 and v = 6 and w = 0
                                         and w' = 1 and wrap = WrapInPoll_raw]
  note at_next = Curried_call_no_cache [where f = next_value and x = 3 and w = 0
                                          and wrap = WrapInPoll_raw]
  from at_inc h have same:
    "fst (Curried_call (Curried inc 5) 0) = fst (Curried_call (Curried inc 5) 1)
     \<and> fst (PromiseLike WrapInPoll_raw (Curried_call (Curried inc 5)) 0)
         = fst (PromiseLike WrapInPoll_raw (Curried_call (Curried inc 5)) 1)"
    by blast
  from at_inc have first: "Curried_call (Curried inc 5) 0 = inc 5 0"
    by blast
  from at_next have fresh:
    "Curried_call (Curried next_value 3) 0 = next_value 3 0"
    "Curried_call (Curried next_value 3) (snd (Curried_call (Curried next_value 3) 0))
       = next_value 3 (snd (next_value 3 0))"
    "PromiseLike WrapInPoll_raw (Curried_call (Curried next_value 3))
        (snd (PromiseLike WrapInPoll_raw (Curried_call (Curried next_value 3)) 0))
       = (WrapInPoll_raw (fst (next_value 3 (snd (next_value 3 0)))),
          snd (next_value 3 (snd (next_value 3 0))))"
    by blast+
  have evals: "inc 5 0 = (6, 0)" "next_value 3 0 = (3, 1)" "next_value 3 1 = (4, 2)"
    by (simp_all add: inc_def next_value_def)
  from h same first fresh show ?thesis
    by (simp only: evals snd_conv fst_conv WrapInPoll_raw_def simp_thms)
qed

subsection \<open>Callables that return a promise\<close>

text \<open>
  For a factory without argument over a callable whose result is itself callable without
  argument, the adaptation selects the overload of lines 151-156. \<open>Once()\<close> calls the
  callable once, at \<open>Once\<close> time; \<open>Repeated()\<close> calls its const call operator once, at
  \<open>Repeated\<close> time, and does not compile when the class has none. The promise is the
  \<open>PromiseLike\<close> over the value returned, and polling it invokes that value and not the
  callable.
\<close>

lemma Call0_eager:
  assumes r: "invoke_result S F [] = Some R" and c: "IsVoidCallable S R"
    and e: "f w = (p, w1)" and v: "view f = Some fc" and ec: "fc w = (pc, wc)"
  shows "instantiate S F None = Selected Call0 (TPromiseLike R)
       \<and> PromiseFactoryImpl_Call0 wrap f w = (PromiseLike wrap p, w1)
       \<and> Once_void moved (PromiseFactoryImpl_Call0 wrap) (PromiseFactory f) w
           = (PromiseLike wrap p, PromiseFactory (moved f), w1)
       \<and> Repeated_void (ByConstRef view) (PromiseFactoryImpl_Call0 wrap) (PromiseFactory f) w
           = Some (PromiseLike wrap pc, PromiseFactory f, wc)
       \<and> Repeated_void (ByConstRef mutable_lambda_view) (PromiseFactoryImpl_Call0 wrap)
            (PromiseFactory f) w = None
       \<and> PromiseLike wrap p w' = (wrap (fst (p w')), snd (p w'))"
  using c e ec
  by (simp add: instantiate_def resolve_void [OF r] Once_void_Call0 Repeated_void_Call0 v
      Repeated_void_Call0_no_const mutable_lambda_view_def PromiseFactoryImpl_Call0_def
      PromiseLike_def split: prod.splits)

text \<open>
  At \<open>make_promise\<close>, which counts its calls in the world: one call has been made when
  \<open>Once()\<close> returns, and the poll that follows leaves the count at one.
\<close>

lemma Call0_eager_make_promise:
  "instantiate status_sigs (TClass 1) None = Selected Call0 (TPromiseLike (TClass 0))
   \<and> Once_void id (PromiseFactoryImpl_Call0 WrapInPoll_status) (PromiseFactory make_promise) 0
       = (PromiseLike WrapInPoll_status counting_poll, PromiseFactory make_promise, 1)
   \<and> Repeated_void (ByConstRef lambda_view) (PromiseFactoryImpl_Call0 WrapInPoll_status)
        (PromiseFactory make_promise) 0
       = Some (PromiseLike WrapInPoll_status counting_poll, PromiseFactory make_promise, 1)
   \<and> PromiseLike WrapInPoll_status counting_poll 1 = (Ready 1, 1)"
proof -
  have r: "invoke_result status_sigs (TClass 1) [] = Some (TClass 0)"
    by (simp add: status_sigs_def)
  have c: "IsVoidCallable status_sigs (TClass 0)"
    by (simp add: IsVoidCallable_def status_sigs_def)
  have e: "make_promise 0 = (counting_poll, 1)" by (simp add: make_promise_def)
  have v: "lambda_view make_promise = Some make_promise" by (simp add: lambda_view_def)
  show ?thesis
    using r c e v
      Call0_eager
        [where S = status_sigs and F = "TClass 1" and R = "TClass 0" and f = make_promise
           and w = 0 and p = counting_poll and ?w1.0 = 1 and view = lambda_view
           and fc = make_promise and pc = counting_poll and wc = 1
           and wrap = WrapInPoll_status and moved = id and w' = 1]
    by (simp add: counting_poll_def WrapInPoll_status_def)
qed

text \<open>
  C10. Claim: for a callable whose result, at the applicable arity, is itself callable
  without argument, the adaptation calls the callable at \<open>Once\<close> or \<open>Repeated\<close> time and
  the value returned is the promise. At a callable of an \<open>int\<close> that returns a promise
  (\<open>TClass 2\<close>) and \<open>A = int\<close>, the guard of the overload that calls \<open>f(arg)\<close>
  (lines 134-139) accepts, but the overloads that drop the argument ask for
  \<open>ResultOf<F()>\<close>, an error of the program; at a callable of no argument that returns a
  promise (\<open>TClass 1\<close>) and \<open>A = int\<close>, the guard of the overload that drops the argument
  and calls \<open>f()\<close> (lines 143-148) accepts, but the overloads that use the argument ask
  for \<open>ResultOf<F(A)>\<close>, an error likewise. Neither factory compiles, and the callable
  is never called.
\<close>

theorem promise_callable_with_argument_ill_formed:
  "declared_type status_sigs Call1 (TClass 2) (Some TInt) = Substituted (TPromiseLike (TClass 0))
   \<and> declared_type status_sigs DropArgCall0 (TClass 2) (Some TInt) = HardError
   \<and> instantiate status_sigs (TClass 2) (Some TInt) = IllFormed
   \<and> declared_type status_sigs DropArgCall0 (TClass 1) (Some TInt)
       = Substituted (TPromiseLike (TClass 0))
   \<and> declared_type status_sigs Call1 (TClass 1) (Some TInt) = HardError
   \<and> instantiate status_sigs (TClass 1) (Some TInt) = IllFormed"
  by (simp add: instantiate_def resolve_def overloads_def ResultOf_def ResultOfTInner_def
      RemoveCVRef_def status_sigs_def enable_if_t_def IsVoidCallable_def)

end
